theory Spec2Isabelle
  imports Main
begin

section \<open>Outcomes of a C++ call\<close>

text \<open>
  A call either returns, lets an exception escape to its caller, or ends the process
  (\<^verbatim>\<open>std::terminate\<close>). The last two are the error values; a \<^verbatim>\<open>void\<close> function
  that returns yields the successor state alone.
\<close>

datatype error = Exception string | Terminated

text \<open>
  The \<^verbatim>\<open>noexcept\<close> specifier of a function: an exception that would leave the body
  calls \<^verbatim>\<open>std::terminate\<close> instead of reaching the caller.
\<close>

definition noexcept :: "('s \<Rightarrow> error + 'a) \<Rightarrow> 's \<Rightarrow> error + 'a" where
  "noexcept body s =
     (case body s of
        Inl (Exception e) \<Rightarrow> Inl Terminated
      | Inl Terminated \<Rightarrow> Inl Terminated
      | Inr r \<Rightarrow> Inr r)"

section \<open>The page container (MainPage.h)\<close>

text \<open>
  \<^verbatim>\<open>struct MainPage : MainPageT<MainPage> { MainPage(); };\<close>
  The struct declares a constructor and no data member, so an instance consists of its
  base-class part. The base template comes from the generated header and is a type
  parameter here.
\<close>

datatype 'base MainPage = MainPage (MainPageT: 'base)

text \<open>
  Modelled from the spec: the body of the constructor \<^verbatim>\<open>MainPage::MainPage()\<close> is
  not in the source files at hand, only its declaration in MainPage.h is. The spec gives it
  "no inputs, no outputs, no observable side effects beyond successful construction" and
  "no error conditions". The argument is the state in which the framework template
  creates its part of the object.
\<close>

definition MainPage_ctor :: "'base \<Rightarrow> error + 'base MainPage" where
  "MainPage_ctor base_init = Inr (MainPage base_init)"

section \<open>The package provider (ReactPackageProvider.cpp)\<close>

text \<open>A package builder is a handle to an object of the framework.\<close>

type_synonym IReactPackageBuilder = nat

text \<open>
  The state of the application: the fields of the provider object (\<^verbatim>\<open>this\<close>; the
  struct is declared in a header that is not at hand, so its fields are a type
  parameter), the page instance if the framework has created one, and the state of the
  framework runtime, where the builders and their registries live.
\<close>

record ('p, 'base, 'w) app =
  provider :: 'p
  page :: "'base MainPage option"
  framework :: 'w

text \<open>
  The framework routine \<^verbatim>\<open>AddAttributedModules(packageBuilder, useTurboModules)\<close>
  is not part of the repository. The provider is parametric in it: a routine takes the
  builder and the flag and acts on the framework state, with any of the outcomes of a call.
\<close>

type_synonym 'w routine = "IReactPackageBuilder \<Rightarrow> bool \<Rightarrow> 'w \<Rightarrow> error + 'w"

text \<open>
  A call into the framework receives its arguments only: it acts on the framework state
  and reaches neither the provider's fields nor the page.
\<close>

definition call_framework ::
    "('w \<Rightarrow> error + 'w) \<Rightarrow> ('p, 'base, 'w) app \<Rightarrow> error + ('p, 'base, 'w) app" where
  "call_framework operation s =
     (case operation (framework s) of
        Inl e \<Rightarrow> Inl e
      | Inr w \<Rightarrow> Inr (s\<lparr>framework := w\<rparr>))"

text \<open>
  \<^verbatim>\<open>
  void ReactPackageProvider::CreatePackage(IReactPackageBuilder const &packageBuilder) noexcept
  {
      AddAttributedModules(packageBuilder, true);
  }
  \<close>
\<close>

definition CreatePackage ::
    "'w routine \<Rightarrow> IReactPackageBuilder \<Rightarrow> ('p, 'base, 'w) app \<Rightarrow> error + ('p, 'base, 'w) app" where
  "CreatePackage AddAttributedModules packageBuilder =
     noexcept (call_framework (AddAttributedModules packageBuilder True))"

subsection \<open>Framework doubles\<close>

text \<open>
  A recording wrapper around any routine: the framework state is paired with the list of
  the calls received so far, each with its two arguments. The wrapped routine runs as
  before and a call that returns is appended to the list.
\<close>

definition recording ::
    "'w routine \<Rightarrow> ((IReactPackageBuilder \<times> bool) list \<times> 'w) routine" where
  "recording f packageBuilder useTurboModules lw =
     (case f packageBuilder useTurboModules (snd lw) of
        Inl e \<Rightarrow> Inl e
      | Inr w \<Rightarrow> Inr (fst lw @ [(packageBuilder, useTurboModules)], w))"

text \<open>A routine that throws on every call.\<close>

definition throwing :: "'w routine" where
  "throwing packageBuilder useTurboModules w = Inl (Exception ''hresult_error'')"

text \<open>A routine that throws when it is given one particular builder and returns otherwise.\<close>

definition failing_for :: "IReactPackageBuilder \<Rightarrow> 'w routine" where
  "failing_for bad packageBuilder useTurboModules w =
     (if packageBuilder = bad then Inl (Exception ''hresult_error'') else Inr w)"

text \<open>
  A native module of the binary: its name, and whether it has opted into attribute-based
  discovery.
\<close>

record native_module =
  moduleName :: string
  attributed :: bool

text \<open>
  Modelled from the spec: the framework's bulk-registration routine
  \<^verbatim>\<open>AddAttributedModules\<close> (NativeModules.h of the framework) is not in the source
  files at hand. The spec gives its effect: "the framework's module registry gains
  entries for every native module in the binary that has opted into attribute-based
  discovery". The framework state maps each builder to the names registered through it;
  the spec gives the flag no effect of its own and names no failure of the routine.
\<close>

definition AddAttributedModules ::
    "native_module list \<Rightarrow> (IReactPackageBuilder \<Rightarrow> string list) routine" where
  "AddAttributedModules binary packageBuilder useTurboModules registry =
     Inr (registry(packageBuilder :=
            registry packageBuilder @ map moduleName (filter attributed binary)))"

section \<open>The framework driving both components\<close>

text \<open>
  Modelled from the spec: the host that calls the two components is the framework, not
  code of the repository. The spec: "the framework constructs the page, and separately
  invokes the provider's registration entry point". A run is a sequence of such events;
  it stops at the first one that does not return.
\<close>

datatype event = Construct_MainPage | Invoke_CreatePackage IReactPackageBuilder

fun step ::
    "'w routine \<Rightarrow> 'base \<Rightarrow> event \<Rightarrow> ('p, 'base, 'w) app \<Rightarrow> error + ('p, 'base, 'w) app" where
  "step f base_init Construct_MainPage s =
     (case MainPage_ctor base_init of
        Inl e \<Rightarrow> Inl e
      | Inr p \<Rightarrow> Inr (s\<lparr>page := Some p\<rparr>))"
| "step f base_init (Invoke_CreatePackage packageBuilder) s = CreatePackage f packageBuilder s"

fun run ::
    "'w routine \<Rightarrow> 'base \<Rightarrow> event list \<Rightarrow> ('p, 'base, 'w) app \<Rightarrow> error + ('p, 'base, 'w) app" where
  "run f base_init [] s = Inr s"
| "run f base_init (ev # evs) s =
     (case step f base_init ev s of
        Inl e \<Rightarrow> Inl e
      | Inr s' \<Rightarrow> run f base_init evs s')"

text \<open>What an event is, with the builder argument left out.\<close>

fun kind :: "event \<Rightarrow> bool" where
  "kind Construct_MainPage = False"
| "kind (Invoke_CreatePackage packageBuilder) = True"

section \<open>Basic facts\<close>

lemma noexcept_cases:
  "noexcept body s = Inr r \<longleftrightarrow> body s = Inr r"
  "noexcept body s = Inl Terminated \<longleftrightarrow> (\<exists>e. body s = Inl e)"
  "noexcept body s \<noteq> Inl (Exception e)"
  by (auto simp: noexcept_def split: sum.splits error.splits)

lemma CreatePackage_Inr:
  "CreatePackage f b s = Inr s' \<longleftrightarrow>
     (\<exists>w. f b True (framework s) = Inr w \<and> s' = s\<lparr>framework := w\<rparr>)"
  by (auto simp: CreatePackage_def noexcept_cases call_framework_def split: sum.splits)

lemma CreatePackage_Inl:
  "CreatePackage f b s = Inl err \<longleftrightarrow>
     (err = Terminated \<and> (\<exists>e. f b True (framework s) = Inl e))"
  by (cases err)
     (auto simp: CreatePackage_def noexcept_cases call_framework_def split: sum.splits)

lemma step_page:
  "step f base_init ev s = Inr s' \<Longrightarrow>
     page s' = (if kind ev then page s else Some (MainPage base_init))"
  by (cases ev) (auto simp: MainPage_ctor_def CreatePackage_Inr)

lemma run_page:
  "map kind evs1 = map kind evs2 \<Longrightarrow> page sa = page sb \<Longrightarrow>
   run f base_init evs1 sa = Inr s1 \<Longrightarrow> run g base_init evs2 sb = Inr s2 \<Longrightarrow>
   page s1 = page s2"
proof (induction evs1 arbitrary: evs2 sa sb)
  case Nil
  then show ?case by simp
next
  case (Cons ev evs1)
  from Cons.prems(1) obtain ev' evs2' where evs2: "evs2 = ev' # evs2'"
    and k: "kind ev = kind ev'" and ks: "map kind evs1 = map kind evs2'"
    by (cases evs2) auto
  from Cons.prems(3) obtain sa' where a: "step f base_init ev sa = Inr sa'"
    and ra: "run f base_init evs1 sa' = Inr s1"
    by (auto split: sum.splits)
  from Cons.prems(4) evs2 obtain sb' where b: "step g base_init ev' sb = Inr sb'"
    and rb: "run g base_init evs2' sb' = Inr s2"
    by (auto split: sum.splits)
  have "page sa' = page sb'"
    using step_page [OF a] step_page [OF b] k Cons.prems(2) by simp
  from Cons.IH [OF ks this ra rb] show ?case .
qed

section \<open>Claims about the package provider\<close>

text \<open>
  C1, as stated: CreatePackage returns normally under all conditions. It does not when the
  framework routine fails: the body has no handler, so the exception meets the
  \<^verbatim>\<open>noexcept\<close> boundary and the process is terminated.
\<close>

theorem CreatePackage_returns_counterexample:
  "CreatePackage throwing 0 \<lparr>provider = (), page = None :: unit MainPage option, framework = ()\<rparr>
     = Inl Terminated"
  by (simp add: CreatePackage_Inl throwing_def)

text \<open>
  C1, amended: for every builder, every framework routine and every state, CreatePackage
  never lets an exception reach its caller (and, being \<^verbatim>\<open>void\<close>, has no error
  code); it returns normally exactly when the call of the framework routine on that
  builder returns normally, and otherwise the process is terminated.
\<close>

theorem CreatePackage_never_signals_failure:
  "CreatePackage f b s \<noteq> Inl (Exception e) \<and>
   ((\<exists>s'. CreatePackage f b s = Inr s') \<longleftrightarrow> (\<exists>w. f b True (framework s) = Inr w)) \<and>
   (CreatePackage f b s = Inl Terminated \<longleftrightarrow> (\<exists>e'. f b True (framework s) = Inl e'))"
  by (simp add: CreatePackage_Inl CreatePackage_Inr)

text \<open>The case of a binary with zero attributed modules, under the routine of the spec.\<close>

theorem CreatePackage_never_signals_failure_witness:
  "CreatePackage (AddAttributedModules []) 7
      \<lparr>provider = (), page = None :: unit MainPage option, framework = (\<lambda>b. [])\<rparr>
     \<noteq> Inl (Exception ''hresult_error'') \<and>
   (\<exists>s'. CreatePackage (AddAttributedModules []) 7
      \<lparr>provider = (), page = None :: unit MainPage option, framework = (\<lambda>b. [])\<rparr> = Inr s')"
  using CreatePackage_never_signals_failure
    [of "AddAttributedModules []" 7
        "\<lparr>provider = (), page = None :: unit MainPage option, framework = (\<lambda>b. [])\<rparr>"
        "''hresult_error''"]
  by (simp add: AddAttributedModules_def)

text \<open>
  C2: for every builder, CreatePackage is one call of AddAttributedModules on that builder
  (the recorded calls grow by exactly this one, with the flag true); the state changes as
  that call changes the framework state and in no other way; afterwards the registry of
  the builder has an entry for every module of the binary that opted into attribute-based
  discovery, and keeps the entries it had. The result on return is the successor state
  alone: there is no return value.
\<close>

theorem CreatePackage_delegates:
  "\<exists>w. AddAttributedModules binary b True (snd (framework s)) = Inr w \<and>
       CreatePackage (recording (AddAttributedModules binary)) b s
         = Inr (s\<lparr>framework := (fst (framework s) @ [(b, True)], w)\<rparr>) \<and>
       (\<forall>m \<in> set binary. attributed m \<longrightarrow> moduleName m \<in> set (w b)) \<and>
       set (snd (framework s) b) \<subseteq> set (w b)"
  by (auto simp: CreatePackage_Inr recording_def AddAttributedModules_def)

theorem CreatePackage_delegates_witness:
  "CreatePackage
      (recording (AddAttributedModules
         [\<lparr>moduleName = ''ImageClassifier'', attributed = True\<rparr>,
          \<lparr>moduleName = ''Unlisted'', attributed = False\<rparr>])) 3
      \<lparr>provider = (), page = None :: unit MainPage option, framework = ([], \<lambda>b. [])\<rparr>
     = Inr \<lparr>provider = (), page = None,
            framework = ([(3, True)], (\<lambda>b. [])(3 := [''ImageClassifier'']))\<rparr> \<and>
   attributed \<lparr>moduleName = ''ImageClassifier'', attributed = True\<rparr> \<and>
   moduleName \<lparr>moduleName = ''ImageClassifier'', attributed = True\<rparr>
     \<in> set (((\<lambda>b. [])(3 := [''ImageClassifier''])) (3::nat))"
  using CreatePackage_delegates
    [of "[\<lparr>moduleName = ''ImageClassifier'', attributed = True\<rparr>,
          \<lparr>moduleName = ''Unlisted'', attributed = False\<rparr>]" 3
        "\<lparr>provider = (), page = None :: unit MainPage option, framework = ([], \<lambda>b. [])\<rparr>"]
  by (auto simp: AddAttributedModules_def)

text \<open>
  C3: for two successive invocations of CreatePackage with two distinct builders, whatever
  the provider's fields are and whatever the framework routine does, the fields after
  each call are the fields before the first; and each invocation makes at most one call
  into the framework.
\<close>

theorem provider_stateless:
  assumes "b1 \<noteq> b2"
    and "CreatePackage (recording f) b1 s = Inr s1"
    and "CreatePackage (recording f) b2 s1 = Inr s2"
  shows "provider s1 = provider s \<and> provider s2 = provider s \<and>
         length (fst (framework s1)) \<le> length (fst (framework s)) + 1 \<and>
         length (fst (framework s2)) \<le> length (fst (framework s1)) + 1"
  using assms(2,3) by (auto simp: CreatePackage_Inr recording_def split: sum.splits)

theorem provider_stateless_witness:
  "(1::nat) \<noteq> 2 \<and>
   CreatePackage
      (recording (AddAttributedModules [\<lparr>moduleName = ''ImageClassifier'', attributed = True\<rparr>])) 1
      \<lparr>provider = ''fields'', page = None :: unit MainPage option, framework = ([], \<lambda>b. [])\<rparr>
     = Inr \<lparr>provider = ''fields'', page = None,
            framework = ([(1, True)], (\<lambda>b. [])(1 := [''ImageClassifier'']))\<rparr> \<and>
   CreatePackage
      (recording (AddAttributedModules [\<lparr>moduleName = ''ImageClassifier'', attributed = True\<rparr>])) 2
      \<lparr>provider = ''fields'', page = None :: unit MainPage option,
       framework = ([(1, True)], (\<lambda>b. [])(1 := [''ImageClassifier'']))\<rparr>
     = Inr \<lparr>provider = ''fields'', page = None,
            framework = ([(1, True), (2, True)],
              (\<lambda>b. [])(1 := [''ImageClassifier''], 2 := [''ImageClassifier'']))\<rparr> \<and>
   provider \<lparr>provider = ''fields'', page = None :: unit MainPage option,
             framework = ([(1::nat, True), (2, True)],
               (\<lambda>b::nat. [])(1 := [''ImageClassifier''], 2 := [''ImageClassifier'']))\<rparr>
     = ''fields'' \<and>
   length [(1::nat, True), (2, True)] \<le> length [(1::nat, True)] + 1"
proof -
  have h1: "(1::nat) \<noteq> 2" by simp
  have h2: "CreatePackage
      (recording (AddAttributedModules [\<lparr>moduleName = ''ImageClassifier'', attributed = True\<rparr>])) 1
      \<lparr>provider = ''fields'', page = None :: unit MainPage option, framework = ([], \<lambda>b. [])\<rparr>
     = Inr \<lparr>provider = ''fields'', page = None,
            framework = ([(1, True)], (\<lambda>b. [])(1 := [''ImageClassifier'']))\<rparr>"
    by (simp add: CreatePackage_Inr recording_def AddAttributedModules_def)
  have h3: "CreatePackage
      (recording (AddAttributedModules [\<lparr>moduleName = ''ImageClassifier'', attributed = True\<rparr>])) 2
      \<lparr>provider = ''fields'', page = None :: unit MainPage option,
       framework = ([(1, True)], (\<lambda>b. [])(1 := [''ImageClassifier'']))\<rparr>
     = Inr \<lparr>provider = ''fields'', page = None,
            framework = ([(1, True), (2, True)],
              (\<lambda>b. [])(1 := [''ImageClassifier''], 2 := [''ImageClassifier'']))\<rparr>"
    by (simp add: CreatePackage_Inr recording_def AddAttributedModules_def)
  show ?thesis using provider_stateless [OF h1 h2 h3] h1 h2 h3 by simp
qed

text \<open>
  C6: the builder is used only during the call. Whatever the provider's fields are, and
  whichever builder handles they hold (\<open>held\<close> reads them off the fields), CreatePackage
  leaves the fields as they were: a builder the provider did not hold before the call is
  not held after it.
\<close>

theorem builder_not_retained:
  assumes "b \<notin> held (provider s)"
    and "CreatePackage f b s = Inr s'"
  shows "provider s' = provider s \<and> b \<notin> held (provider s')"
  using assms by (auto simp: CreatePackage_Inr)

theorem builder_not_retained_witness:
  "(5::nat) \<notin> set (provider \<lparr>provider = [4::nat], page = None :: unit MainPage option,
                               framework = (\<lambda>b::nat. [] :: string list)\<rparr>) \<and>
   CreatePackage (AddAttributedModules [\<lparr>moduleName = ''ImageClassifier'', attributed = True\<rparr>]) 5
      \<lparr>provider = [4::nat], page = None :: unit MainPage option, framework = (\<lambda>b. [])\<rparr>
     = Inr \<lparr>provider = [4], page = None, framework = (\<lambda>b. [])(5 := [''ImageClassifier''])\<rparr> \<and>
   (5::nat) \<notin> set (provider \<lparr>provider = [4::nat], page = None :: unit MainPage option,
                               framework = (\<lambda>b::nat. [])(5 := [''ImageClassifier''])\<rparr>)"
proof -
  have h1: "(5::nat) \<notin> set (provider \<lparr>provider = [4::nat], page = None :: unit MainPage option,
                               framework = (\<lambda>b::nat. [] :: string list)\<rparr>)" by simp
  have h2: "CreatePackage (AddAttributedModules [\<lparr>moduleName = ''ImageClassifier'', attributed = True\<rparr>]) 5
      \<lparr>provider = [4::nat], page = None :: unit MainPage option, framework = (\<lambda>b. [])\<rparr>
     = Inr \<lparr>provider = [4], page = None, framework = (\<lambda>b. [])(5 := [''ImageClassifier''])\<rparr>"
    by (simp add: CreatePackage_def noexcept_def call_framework_def AddAttributedModules_def)
  show ?thesis using builder_not_retained [of 5 set, OF h1 h2] h1 h2 by simp
qed

text \<open>
  C8: on every invocation the flag handed to AddAttributedModules is true. What the
  routine would do with the flag false never matters to CreatePackage, and a call that
  returns is recorded with the builder passed in and the flag true.
\<close>

theorem CreatePackage_flag_true:
  assumes "CreatePackage (recording f) b t = Inr t'"
  shows "fst (framework t') = fst (framework t) @ [(b, True)] \<and>
         CreatePackage f b s = CreatePackage (\<lambda>packageBuilder flag. f packageBuilder True) b s"
proof
  from assms show "fst (framework t') = fst (framework t) @ [(b, True)]"
    by (auto simp: CreatePackage_Inr recording_def split: sum.splits)
  show "CreatePackage f b s = CreatePackage (\<lambda>packageBuilder flag. f packageBuilder True) b s"
    by (simp add: CreatePackage_def)
qed

theorem CreatePackage_flag_true_witness:
  "CreatePackage
      (recording (AddAttributedModules [\<lparr>moduleName = ''ImageClassifier'', attributed = True\<rparr>])) 6
      \<lparr>provider = (), page = None :: unit MainPage option,
       framework = ([(1, True)], \<lambda>b. [])\<rparr>
     = Inr \<lparr>provider = (), page = None,
            framework = ([(1, True), (6, True)], (\<lambda>b. [])(6 := [''ImageClassifier'']))\<rparr> \<and>
   fst (framework \<lparr>provider = (), page = None :: unit MainPage option,
          framework = ([(1::nat, True), (6, True)], (\<lambda>b::nat. [])(6 := [''ImageClassifier'']))\<rparr>)
     = fst (framework \<lparr>provider = (), page = None :: unit MainPage option,
          framework = ([(1::nat, True)], \<lambda>b::nat. [] :: string list)\<rparr>) @ [(6, True)]"
proof -
  have h: "CreatePackage
      (recording (AddAttributedModules [\<lparr>moduleName = ''ImageClassifier'', attributed = True\<rparr>])) 6
      \<lparr>provider = (), page = None :: unit MainPage option,
       framework = ([(1, True)], \<lambda>b. [])\<rparr>
     = Inr \<lparr>provider = (), page = None,
            framework = ([(1, True), (6, True)], (\<lambda>b. [])(6 := [''ImageClassifier'']))\<rparr>"
    by (simp add: CreatePackage_def noexcept_def call_framework_def recording_def
          AddAttributedModules_def)
  show ?thesis
    using CreatePackage_flag_true
      [OF h, of "\<lparr>provider = (), page = None :: unit MainPage option,
                  framework = (\<lambda>b::nat. [] :: string list)\<rparr>"] h
    by simp
qed

text \<open>
  C9: CreatePackage is deterministic and reads nothing of the provider. Two invocations
  with the same builder and the same framework routine, started in states with the same
  framework state, have the same outcome and leave the same framework state, whatever the
  provider's fields and the page are in each.
\<close>

theorem CreatePackage_deterministic:
  assumes "framework s1 = framework s2"
  shows "map_sum id framework (CreatePackage f b s1) = map_sum id framework (CreatePackage f b s2)"
  using assms
  by (auto simp: CreatePackage_def noexcept_def call_framework_def split: sum.splits error.splits)

theorem CreatePackage_deterministic_witness:
  "framework \<lparr>provider = ''one'', page = None :: unit MainPage option,
              framework = (\<lambda>b::nat. [] :: string list)\<rparr>
     = framework \<lparr>provider = [2::nat], page = Some (MainPage ()),
                  framework = (\<lambda>b::nat. [] :: string list)\<rparr> \<and>
   map_sum id framework
     (CreatePackage (AddAttributedModules [\<lparr>moduleName = ''ImageClassifier'', attributed = True\<rparr>]) 4
        \<lparr>provider = ''one'', page = None :: unit MainPage option, framework = (\<lambda>b. [])\<rparr>)
     = map_sum id framework
     (CreatePackage (AddAttributedModules [\<lparr>moduleName = ''ImageClassifier'', attributed = True\<rparr>]) 4
        \<lparr>provider = [2::nat], page = Some (MainPage ()), framework = (\<lambda>b. [])\<rparr>)"
proof -
  have h: "framework \<lparr>provider = ''one'', page = None :: unit MainPage option,
              framework = (\<lambda>b::nat. [] :: string list)\<rparr>
     = framework \<lparr>provider = [2::nat], page = Some (MainPage ()),
                  framework = (\<lambda>b::nat. [] :: string list)\<rparr>" by simp
  show ?thesis
    using CreatePackage_deterministic
      [OF h, of "AddAttributedModules [\<lparr>moduleName = ''ImageClassifier'', attributed = True\<rparr>]" 4] h
    by simp
qed

section \<open>Claims about the page container\<close>

text \<open>
  C4: MainPage has a constructor without arguments, and constructing a page never fails:
  the constructor returns a page, and the framework's construction of the page returns in
  every state of the application with the page in place.
\<close>

theorem MainPage_default_constructible:
  "(\<exists>p. MainPage_ctor base_init = Inr p) \<and>
   (\<exists>s'. step f base_init Construct_MainPage s = Inr s' \<and> page s' \<noteq> None)"
  by (simp add: MainPage_ctor_def)

theorem MainPage_default_constructible_witness:
  "(\<exists>p. MainPage_ctor () = Inr p) \<and>
   (\<exists>s'. step (AddAttributedModules []) () Construct_MainPage
            \<lparr>provider = (), page = None, framework = (\<lambda>b. [])\<rparr> = Inr s' \<and> page s' \<noteq> None)"
  using MainPage_default_constructible
    [of "()" "AddAttributedModules []" "\<lparr>provider = (), page = None, framework = (\<lambda>b. [])\<rparr>"]
  by simp

text \<open>
  C5, as stated: for every pair of runs that differ only in the builder passed to
  CreatePackage, the page is the same. It is not when the framework routine fails for one
  builder and not for the other: the run with the failing builder is terminated at the
  \<^verbatim>\<open>noexcept\<close> boundary before the page is constructed, the other run
  constructs it.
\<close>

theorem page_depends_on_builder_counterexample:
  "map kind [Invoke_CreatePackage 1, Construct_MainPage]
     = map kind [Invoke_CreatePackage 2, Construct_MainPage] \<and>
   run (failing_for 2) () [Invoke_CreatePackage 1, Construct_MainPage]
       \<lparr>provider = (), page = None, framework = ()\<rparr>
     = Inr \<lparr>provider = (), page = Some (MainPage ()), framework = ()\<rparr> \<and>
   run (failing_for 2) () [Invoke_CreatePackage 2, Construct_MainPage]
       \<lparr>provider = (), page = None, framework = ()\<rparr>
     = Inl Terminated"
  by (simp add: CreatePackage_def noexcept_def call_framework_def failing_for_def
        MainPage_ctor_def)

text \<open>
  C5, amended: two runs of the application from the same state that differ only in the
  builders passed to CreatePackage, and that both return, leave the same page, whatever
  the framework routine does with the builders: no data flows from the builder to the
  page. Since every prefix of a run is a run, the pages agree at every point that both
  runs reach; a run in which the routine fails for its builder ends there.
\<close>

theorem page_independent_of_builder:
  assumes "map kind evs1 = map kind evs2"
    and "run f base_init evs1 s = Inr s1"
    and "run f base_init evs2 s = Inr s2"
  shows "page s1 = page s2"
  using run_page [OF assms(1) refl assms(2,3)] .

theorem page_independent_of_builder_witness:
  "map kind [Invoke_CreatePackage 1, Construct_MainPage]
     = map kind [Invoke_CreatePackage 2, Construct_MainPage] \<and>
   run (AddAttributedModules [\<lparr>moduleName = ''ImageClassifier'', attributed = True\<rparr>]) ()
       [Invoke_CreatePackage 1, Construct_MainPage]
       \<lparr>provider = (), page = None, framework = (\<lambda>b. [])\<rparr>
     = Inr \<lparr>provider = (), page = Some (MainPage ()),
            framework = (\<lambda>b. [])(1 := [''ImageClassifier''])\<rparr> \<and>
   run (AddAttributedModules [\<lparr>moduleName = ''ImageClassifier'', attributed = True\<rparr>]) ()
       [Invoke_CreatePackage 2, Construct_MainPage]
       \<lparr>provider = (), page = None, framework = (\<lambda>b. [])\<rparr>
     = Inr \<lparr>provider = (), page = Some (MainPage ()),
            framework = (\<lambda>b. [])(2 := [''ImageClassifier''])\<rparr> \<and>
   page \<lparr>provider = (), page = Some (MainPage ()),
         framework = (\<lambda>b::nat. [])(1 := [''ImageClassifier''])\<rparr>
     = page \<lparr>provider = (), page = Some (MainPage ()),
             framework = (\<lambda>b::nat. [])(2 := [''ImageClassifier''])\<rparr>"
proof -
  have h1: "map kind [Invoke_CreatePackage 1, Construct_MainPage]
     = map kind [Invoke_CreatePackage 2, Construct_MainPage]" by simp
  have h2: "run (AddAttributedModules [\<lparr>moduleName = ''ImageClassifier'', attributed = True\<rparr>]) ()
       [Invoke_CreatePackage 1, Construct_MainPage]
       \<lparr>provider = (), page = None, framework = (\<lambda>b. [])\<rparr>
     = Inr \<lparr>provider = (), page = Some (MainPage ()),
            framework = (\<lambda>b. [])(1 := [''ImageClassifier''])\<rparr>"
    by (simp add: CreatePackage_def noexcept_def call_framework_def AddAttributedModules_def
          MainPage_ctor_def)
  have h3: "run (AddAttributedModules [\<lparr>moduleName = ''ImageClassifier'', attributed = True\<rparr>]) ()
       [Invoke_CreatePackage 2, Construct_MainPage]
       \<lparr>provider = (), page = None, framework = (\<lambda>b. [])\<rparr>
     = Inr \<lparr>provider = (), page = Some (MainPage ()),
            framework = (\<lambda>b. [])(2 := [''ImageClassifier''])\<rparr>"
    by (simp add: CreatePackage_def noexcept_def call_framework_def AddAttributedModules_def
          MainPage_ctor_def)
  show ?thesis using page_independent_of_builder [OF h1 h2 h3] h1 h2 h3 by simp
qed

text \<open>
  C7: a MainPage instance holds no state beyond its base-class part: it is rebuilt from
  that part alone, and so is the result of any operation on a page.
\<close>

theorem MainPage_holds_base_only:
  fixes operation :: "'base MainPage \<Rightarrow> 'base MainPage"
  shows "p = MainPage (MainPageT p) \<and> operation p = MainPage (MainPageT (operation p))"
  by simp

theorem MainPage_holds_base_only_witness:
  "MainPage (3::nat) = MainPage (MainPageT (MainPage 3)) \<and>
   id (MainPage (3::nat)) = MainPage (MainPageT (id (MainPage 3)))"
  using MainPage_holds_base_only [of "MainPage (3::nat)" id] by simp

end
